theory Spec2Isabelle
  imports Main "HOL-Library.Word"
begin

section \<open>The bot model of \<open>model/bot.go\<close>\<close>

text \<open>
  A shallow embedding of \<open>src/model/bot.go\<close>. Go strings are byte sequences and are
  modelled as \<open>string\<close> (a list of 8-bit characters), so \<open>len(s)\<close> is \<open>length s\<close>.
  An \<open>int64\<close> is a 64-bit word; its comparisons are signed and are written with \<open>sint\<close>.
  A pointer that the source dereferences without a check (a method receiver, the patch
  handed to \<open>Patch\<close>) is modelled by the record it points to. A pointer that the source
  itself produces or stores as possibly \<open>nil\<close> (the optional fields of a patch, the
  elements of a \<open>BotList\<close>, the results of the decoding functions) is an \<open>option\<close>,
  with \<open>None\<close> for \<open>nil\<close>.
\<close>

subsection \<open>Data\<close>

type_synonym int64 = "64 word"

text \<open>\<open>type Bot struct\<close> (lines 22 to 31), field by field.\<close>

record Bot =
  UserId :: string
  Username :: string
  DisplayName :: string
  Description :: string
  CreatorId :: string
  CreateAt :: int64
  UpdateAt :: int64
  DeleteAt :: int64

text \<open>
  \<open>type BotPatch struct\<close> (lines 34 to 38): three \<open>*string\<close> fields. The field names
  carry the suffix \<open>_patch\<close> because the same names are fields of \<open>Bot\<close>.
\<close>

record BotPatch =
  Username_patch :: "string option"
  DisplayName_patch :: "string option"
  Description_patch :: "string option"

subsection \<open>Patch\<close>

text \<open>
  \<open>func (b *Bot) Patch(patch *BotPatch)\<close> (lines 118 to 130) assigns to the receiver in
  place; the model returns the receiver's new content. The three \<open>if\<close> statements run
  one after the other.
\<close>

definition Patch :: "Bot \<Rightarrow> BotPatch \<Rightarrow> Bot" where
  "Patch b patch =
     (let b1 = (case Username_patch patch of
                  None \<Rightarrow> b
                | Some v \<Rightarrow> b\<lparr>Username := v\<rparr>);
          b2 = (case DisplayName_patch patch of
                  None \<Rightarrow> b1
                | Some v \<Rightarrow> b1\<lparr>DisplayName := v\<rparr>);
          b3 = (case Description_patch patch of
                  None \<Rightarrow> b2
                | Some v \<Rightarrow> b2\<lparr>Description := v\<rparr>)
      in b3)"

subsection \<open>Validation\<close>

text \<open>
  Modelled from the spec: the error-reporting contract \<open>NewAppError\<close> and the
  \<open>AppError\<close> it builds are declared in \<open>model/utils.go\<close>, which is not among the
  sources. Section 6 of the spec gives the contract as accepting the operation name, the
  message key, the trace context map, the debug detail string and the HTTP status code;
  the model records these five arguments, in this order.
\<close>

record AppError =
  operation_name :: string
  message_key :: string
  trace_context :: "string \<rightharpoonup> string"
  debug_detail :: string
  status_code :: int

definition NewAppError ::
  "string \<Rightarrow> string \<Rightarrow> (string \<rightharpoonup> string) \<Rightarrow> string \<Rightarrow> int \<Rightarrow> AppError" where
  "NewAppError place ident params details status =
     \<lparr>operation_name = place, message_key = ident, trace_context = params,
      debug_detail = details, status_code = status\<rparr>"

text \<open>\<open>http.StatusBadRequest\<close>, the constant of Go's \<open>net/http\<close>.\<close>

definition StatusBadRequest :: int where
  "StatusBadRequest = 400"

text \<open>
  \<open>func (b *Bot) Trace()\<close> (lines 44 to 46): the map literal with the one key
  \<open>"user_id"\<close>.
\<close>

definition Trace :: "Bot \<Rightarrow> (string \<rightharpoonup> string)" where
  "Trace b = [''user_id'' \<mapsto> UserId b]"

text \<open>
  \<open>BOT_DISPLAY_NAME_MAX_RUNES = USER_FIRST_NAME_MAX_RUNES\<close> (line 16). The constant on
  the right is declared in \<open>model/user.go\<close>, which is not among the sources, and is a
  parameter.
\<close>

definition BOT_DISPLAY_NAME_MAX_RUNES :: "int \<Rightarrow> int" where
  "BOT_DISPLAY_NAME_MAX_RUNES USER_FIRST_NAME_MAX_RUNES = USER_FIRST_NAME_MAX_RUNES"

text \<open>
  \<open>func (b *Bot) IsValid() *AppError\<close> (lines 55 to 85): seven checks, each returning
  at once; \<open>None\<close> is the \<open>nil\<close> returned at the end. Three collaborators are
  parameters: \<open>IsValidUsername\<close> (declared in \<open>model/user.go\<close>, not among the sources),
  \<open>RuneCountInString\<close> (Go's \<open>unicode/utf8\<close>) and \<open>USER_FIRST_NAME_MAX_RUNES\<close>.
\<close>

definition IsValid ::
  "(string \<Rightarrow> bool) \<Rightarrow> (string \<Rightarrow> int) \<Rightarrow> int \<Rightarrow> Bot \<Rightarrow> AppError option" where
  "IsValid IsValidUsername RuneCountInString USER_FIRST_NAME_MAX_RUNES b =
     (if int (length (UserId b)) \<noteq> 26 then
        Some (NewAppError ''Bot.IsValid'' ''model.bot.is_valid.user_id.app_error''
                (Trace b) '''' StatusBadRequest)
      else if \<not> IsValidUsername (Username b) then
        Some (NewAppError ''Bot.IsValid'' ''model.bot.is_valid.username.app_error''
                (Trace b) '''' StatusBadRequest)
      else if RuneCountInString (DisplayName b)
                > BOT_DISPLAY_NAME_MAX_RUNES USER_FIRST_NAME_MAX_RUNES then
        Some (NewAppError ''Bot.IsValid'' ''model.bot.is_valid.user_id.app_error''
                (Trace b) '''' StatusBadRequest)
      else if RuneCountInString (Description b) > 1024 then
        Some (NewAppError ''Bot.IsValid'' ''model.bot.is_valid.description.app_error''
                (Trace b) '''' StatusBadRequest)
      else if int (length (CreatorId b)) \<noteq> 26 then
        Some (NewAppError ''Bot.IsValid'' ''model.bot.is_valid.creator_id.app_error''
                (Trace b) '''' StatusBadRequest)
      else if CreateAt b = 0 then
        Some (NewAppError ''Bot.IsValid'' ''model.bot.is_valid.create_at.app_error''
                (Trace b) '''' StatusBadRequest)
      else if UpdateAt b = 0 then
        Some (NewAppError ''Bot.IsValid'' ''model.bot.is_valid.update_at.app_error''
                (Trace b) '''' StatusBadRequest)
      else None)"

text \<open>
  The validator in the words of the spec (section 4.1): seven rules in a fixed order,
  and the first one that is violated decides the result.
\<close>

datatype rule =
  UserIdRule | UsernameRule | DisplayNameRule | DescriptionRule | CreatorIdRule
  | CreateAtRule | UpdateAtRule

definition rule_order :: "rule list" where
  "rule_order =
     [UserIdRule, UsernameRule, DisplayNameRule, DescriptionRule, CreatorIdRule,
      CreateAtRule, UpdateAtRule]"

fun rule_holds ::
  "(string \<Rightarrow> bool) \<Rightarrow> (string \<Rightarrow> int) \<Rightarrow> int \<Rightarrow> Bot \<Rightarrow> rule \<Rightarrow> bool" where
  "rule_holds V R M b UserIdRule = (length (UserId b) = 26)"
| "rule_holds V R M b UsernameRule = V (Username b)"
| "rule_holds V R M b DisplayNameRule = (R (DisplayName b) \<le> M)"
| "rule_holds V R M b DescriptionRule = (R (Description b) \<le> 1024)"
| "rule_holds V R M b CreatorIdRule = (length (CreatorId b) = 26)"
| "rule_holds V R M b CreateAtRule = (CreateAt b \<noteq> 0)"
| "rule_holds V R M b UpdateAtRule = (UpdateAt b \<noteq> 0)"

definition first_violated ::
  "(string \<Rightarrow> bool) \<Rightarrow> (string \<Rightarrow> int) \<Rightarrow> int \<Rightarrow> Bot \<Rightarrow> rule option" where
  "first_violated V R M b = find (\<lambda>r. \<not> rule_holds V R M b r) rule_order"

text \<open>
  The message key that the source passes to \<open>NewAppError\<close> in the branch of each check
  (lines 57, 61, 65, 69, 73, 77 and 81), as written there.
\<close>

fun rule_key :: "rule \<Rightarrow> string" where
  "rule_key UserIdRule = ''model.bot.is_valid.user_id.app_error''"
| "rule_key UsernameRule = ''model.bot.is_valid.username.app_error''"
| "rule_key DisplayNameRule = ''model.bot.is_valid.user_id.app_error''"
| "rule_key DescriptionRule = ''model.bot.is_valid.description.app_error''"
| "rule_key CreatorIdRule = ''model.bot.is_valid.creator_id.app_error''"
| "rule_key CreateAtRule = ''model.bot.is_valid.create_at.app_error''"
| "rule_key UpdateAtRule = ''model.bot.is_valid.update_at.app_error''"

subsection \<open>Projection to a user\<close>

text \<open>
  Modelled from the spec: \<open>type User struct\<close> is declared in \<open>model/user.go\<close>, which is
  not among the sources. Section 4.6 of the spec names the four parts of the user that
  the projection fills: identifier, account name, account email and first name. The
  composite literal of the source (lines 156 to 162) sets exactly these four fields, and
  only they are modelled. \<open>Id\<close> and \<open>Username\<close> carry the suffix \<open>_user\<close>.
\<close>

record User =
  Id_user :: string
  Username_user :: string
  Email :: string
  FirstName :: string

text \<open>
  \<open>func UserFromBotModel(b *Bot) *User\<close> (lines 155 to 163). \<open>strings.ToLower\<close> of Go's
  library is the parameter \<open>ToLower\<close>; \<open>fmt.Sprintf("%s@localhost", s)\<close> appends the
  literal to \<open>s\<close>.
\<close>

definition UserFromBotModel :: "(string \<Rightarrow> string) \<Rightarrow> Bot \<Rightarrow> User" where
  "UserFromBotModel ToLower b =
     \<lparr>Id_user = UserId b,
      Username_user = Username b,
      Email = ToLower (Username b) @ ''@localhost'',
      FirstName = DisplayName b\<rparr>"

subsection \<open>Cache tokens\<close>

text \<open>
  The helper \<open>Etag(parts ...interface{})\<close> is declared in \<open>model/utils.go\<close>, which is not
  among the sources; it is a parameter that maps the list of its arguments to the token.
  The arguments the source passes are strings, \<open>int64\<close> values and one \<open>int\<close>.
\<close>

datatype etag_part = StringPart string | Int64Part int64 | IntPart int

text \<open>\<open>func (b *Bot) Etag() string\<close> (lines 100 to 102).\<close>

definition Bot_Etag :: "(etag_part list \<Rightarrow> string) \<Rightarrow> Bot \<Rightarrow> string" where
  "Bot_Etag Etag b = Etag [StringPart (UserId b), Int64Part (UpdateAt b)]"

text \<open>
  \<open>type BotList []*Bot\<close> (line 41): the elements are pointers, and \<open>BotListFromJson\<close>
  can store a \<open>nil\<close> one. Reading \<open>v.UpdateAt\<close> through a \<open>nil\<close> element panics.
  A \<open>nil\<close> slice and an empty slice are both the empty list: the source only ranges
  over the slice and takes its length.
\<close>

type_synonym BotList = "Bot option list"

datatype panic = NilPointerDereference

text \<open>
  The loop of \<open>func (l *BotList) Etag()\<close> (lines 184 to 190), over the remaining
  elements, with the current \<open>id\<close> and \<open>t\<close>. The comparison \<open>v.UpdateAt > t\<close> is the
  signed one.
\<close>

fun Etag_loop :: "BotList \<Rightarrow> string \<Rightarrow> int64 \<Rightarrow> panic + (string \<times> int64)" where
  "Etag_loop [] ident t = Inr (ident, t)"
| "Etag_loop (None # vs) ident t = Inl NilPointerDereference"
| "Etag_loop (Some v # vs) ident t =
     (if sint (UpdateAt v) > sint t then Etag_loop vs (UserId v) (UpdateAt v)
      else Etag_loop vs ident t)"

text \<open>
  \<open>func (l *BotList) Etag() string\<close> (lines 179 to 193). \<open>BotList_Etag_parts\<close> is the
  argument list of the final call \<open>Etag(id, t, delta, len(*l))\<close>, and \<open>BotList_Etag\<close>
  the token that the helper makes of it.
\<close>

definition BotList_Etag_parts :: "BotList \<Rightarrow> panic + etag_part list" where
  "BotList_Etag_parts l =
     (let ident = ''0''; t = 0; delta = 0 in
      case Etag_loop l ident t of
        Inl p \<Rightarrow> Inl p
      | Inr (id', t') \<Rightarrow>
          Inr [StringPart id', Int64Part t', Int64Part delta, IntPart (int (length l))])"

definition BotList_Etag :: "(etag_part list \<Rightarrow> string) \<Rightarrow> BotList \<Rightarrow> panic + string" where
  "BotList_Etag Etag l =
     (case BotList_Etag_parts l of
        Inl p \<Rightarrow> Inl p
      | Inr parts \<Rightarrow> Inr (Etag parts))"

subsection \<open>Decoding\<close>

text \<open>
  \<open>json.NewDecoder(data).Decode(&v)\<close> belongs to Go's \<open>encoding/json\<close>, not to the
  repository, and is a parameter of the three functions. The reader \<open>data\<close> is modelled
  by the bytes it yields. A decoder takes these bytes and the current content of the
  target \<open>v\<close>; it returns the error (\<open>None\<close> for \<open>nil\<close>) and the content of the target
  after the call. The decoder of the library itself follows in the next subsection.
\<close>

type_synonym go_error = string

type_synonym 'v decoder = "string \<Rightarrow> 'v \<Rightarrow> go_error option \<times> 'v"

text \<open>
  \<open>func BotFromJson(data io.Reader) *Bot\<close> (lines 111 to 115): the target is the
  pointer \<open>bot\<close>, \<open>nil\<close> at its declaration; the error of \<open>Decode\<close> is dropped.
\<close>

definition BotFromJson :: "Bot option decoder \<Rightarrow> string \<Rightarrow> Bot option" where
  "BotFromJson Decode data =
     (let bot = None;
          (err, bot') = Decode data bot
      in bot')"

text \<open>
  \<open>func BotPatchFromJson(data io.Reader) *BotPatch\<close> (lines 143 to 152): the target is
  the struct \<open>botPatch\<close>, declared with its zero value (three \<open>nil\<close> fields); an error
  returns \<open>nil\<close>, otherwise the address of the struct is returned.
\<close>

definition BotPatch_zero :: BotPatch where
  "BotPatch_zero =
     \<lparr>Username_patch = None, DisplayName_patch = None, Description_patch = None\<rparr>"

definition BotPatchFromJson :: "BotPatch decoder \<Rightarrow> string \<Rightarrow> BotPatch option" where
  "BotPatchFromJson Decode data =
     (let botPatch = BotPatch_zero;
          (err, botPatch') = Decode data botPatch
      in if err \<noteq> None then None else Some botPatch')"

text \<open>
  \<open>func BotListFromJson(data io.Reader) BotList\<close> (lines 166 to 170): the target is the
  slice \<open>bots\<close>, \<open>nil\<close> at its declaration; the error of \<open>Decode\<close> is dropped.
\<close>

definition BotListFromJson :: "BotList decoder \<Rightarrow> string \<Rightarrow> BotList" where
  "BotListFromJson Decode data =
     (let bots = [];
          (err, bots') = Decode data bots
      in bots')"

subsection \<open>The decoder of \<open>encoding/json\<close>\<close>

text \<open>
  What \<open>json.NewDecoder(data).Decode(&v)\<close> does with the three targets of the source,
  as far as the results of the three functions above depend on it. \<open>Decode\<close> works in
  two steps. \<open>readValue\<close> runs the scanner of the library over the input, byte by byte,
  up to the end of the first JSON value; a syntax error, or input that ends before the
  value does, is returned at once and nothing is stored. Otherwise the bytes of the
  value go to \<open>unmarshal\<close>, which looks at the kind of the value (object, array, the
  literal \<open>null\<close>, another literal) and at the type of the target. Storing the members
  of an object into a struct and the elements of an array into a slice is left to
  parameters. An error is modelled by a text; only its presence matters below.
\<close>

text \<open>The codes that a step of the scanner returns, and the parse stack entries.\<close>

datatype scan_code =
  scanContinue | scanBeginLiteral | scanBeginObject | scanObjectKey | scanObjectValue
  | scanEndObject | scanBeginArray | scanArrayValue | scanEndArray | scanSkipSpace
  | scanEnd | scanError

datatype parse_state = parseObjectKey | parseObjectValue | parseArrayValue

text \<open>
  The scanner keeps its next step function in the field \<open>step\<close>. The model names the
  step functions by the constructors of \<open>step_fn\<close> (\<open>StBeginValue\<close> for
  \<open>stateBeginValue\<close>, and so on) and calls them through \<open>call_step\<close>.
\<close>

datatype step_fn =
  StBeginValueOrEmpty | StBeginValue | StBeginStringOrEmpty | StBeginString
  | StEndValue | StEndTop | StInString | StInStringEsc | StInStringEscU
  | StInStringEscU1 | StInStringEscU12 | StInStringEscU123
  | StNeg | St1 | St0 | StDot | StDot0 | StE | StESign | StE0
  | StT | StTr | StTru | StF | StFa | StFal | StFals | StN | StNu | StNul | StError

record scanner =
  step :: step_fn
  endTop :: bool
  parseState :: "parse_state list"
  err :: "go_error option"

definition maxNestingDepth :: nat where
  "maxNestingDepth = 10000"

definition reset :: scanner where
  "reset = \<lparr>step = StBeginValue, endTop = False, parseState = [], err = None\<rparr>"

definition isSpace :: "char \<Rightarrow> bool" where
  "isSpace c = (c = CHR '' '' \<or> c = CHR 0x09 \<or> c = CHR 0x0D \<or> c = CHR 0x0A)"

definition isDigit :: "char \<Rightarrow> bool" where
  "isDigit c = (c \<in> set ''0123456789'')"

definition isHex :: "char \<Rightarrow> bool" where
  "isHex c = (c \<in> set ''0123456789abcdefABCDEF'')"

text \<open>\<open>s.error(c, context)\<close>: the scanner stops, and the error is kept in \<open>err\<close>.\<close>

definition scanner_error :: "scanner \<Rightarrow> char \<Rightarrow> string \<Rightarrow> scan_code \<times> scanner" where
  "scanner_error s c context = (scanError, s\<lparr>step := StError, err := Some context\<rparr>)"

text \<open>The parse stack grows at its end, as the slice of the library does.\<close>

definition pushParseState ::
  "scanner \<Rightarrow> char \<Rightarrow> parse_state \<Rightarrow> scan_code \<Rightarrow> scan_code \<times> scanner" where
  "pushParseState s c newParseState successState =
     (let s' = s\<lparr>parseState := parseState s @ [newParseState]\<rparr> in
      if length (parseState s') \<le> maxNestingDepth then (successState, s')
      else scanner_error s' c ''exceeded max depth'')"

definition popParseState :: "scanner \<Rightarrow> scanner" where
  "popParseState s =
     (let n = length (parseState s) - 1;
          s' = s\<lparr>parseState := take n (parseState s)\<rparr> in
      if n = 0 then s'\<lparr>step := StEndTop, endTop := True\<rparr>
      else s'\<lparr>step := StEndValue\<rparr>)"

text \<open>
  \<open>stateEndTop\<close>: the top-level value has ended before this byte. A byte that is not
  a space is recorded as an error for the next call, but the code is \<open>scanEnd\<close>.
\<close>

definition stateEndTop :: "scanner \<Rightarrow> char \<Rightarrow> scan_code \<times> scanner" where
  "stateEndTop s c =
     (if \<not> isSpace c then (scanEnd, snd (scanner_error s c ''after top-level value''))
      else (scanEnd, s))"

definition stateEndValue :: "scanner \<Rightarrow> char \<Rightarrow> scan_code \<times> scanner" where
  "stateEndValue s c =
     (let n = length (parseState s) in
      if n = 0 then stateEndTop (s\<lparr>step := StEndTop, endTop := True\<rparr>) c
      else if isSpace c then (scanSkipSpace, s\<lparr>step := StEndValue\<rparr>)
      else case parseState s ! (n - 1) of
        parseObjectKey \<Rightarrow>
          if c = CHR '':'' then
            (scanObjectKey,
             s\<lparr>parseState := (parseState s)[n - 1 := parseObjectValue], step := StBeginValue\<rparr>)
          else scanner_error s c ''after object key''
      | parseObjectValue \<Rightarrow>
          if c = CHR '','' then
            (scanObjectValue,
             s\<lparr>parseState := (parseState s)[n - 1 := parseObjectKey], step := StBeginString\<rparr>)
          else if c = CHR ''}'' then (scanEndObject, popParseState s)
          else scanner_error s c ''after object key:value pair''
      | parseArrayValue \<Rightarrow>
          if c = CHR '','' then (scanArrayValue, s\<lparr>step := StBeginValue\<rparr>)
          else if c = CHR '']'' then (scanEndArray, popParseState s)
          else scanner_error s c ''after array element'')"

definition stateBeginValue :: "scanner \<Rightarrow> char \<Rightarrow> scan_code \<times> scanner" where
  "stateBeginValue s c =
     (if isSpace c then (scanSkipSpace, s)
      else if c = CHR ''{'' then
        pushParseState (s\<lparr>step := StBeginStringOrEmpty\<rparr>) c parseObjectKey scanBeginObject
      else if c = CHR ''['' then
        pushParseState (s\<lparr>step := StBeginValueOrEmpty\<rparr>) c parseArrayValue scanBeginArray
      else if c = CHR 0x22 then (scanBeginLiteral, s\<lparr>step := StInString\<rparr>)
      else if c = CHR ''-'' then (scanBeginLiteral, s\<lparr>step := StNeg\<rparr>)
      else if c = CHR ''0'' then (scanBeginLiteral, s\<lparr>step := St0\<rparr>)
      else if c = CHR ''t'' then (scanBeginLiteral, s\<lparr>step := StT\<rparr>)
      else if c = CHR ''f'' then (scanBeginLiteral, s\<lparr>step := StF\<rparr>)
      else if c = CHR ''n'' then (scanBeginLiteral, s\<lparr>step := StN\<rparr>)
      else if c \<in> set ''123456789'' then (scanBeginLiteral, s\<lparr>step := St1\<rparr>)
      else scanner_error s c ''looking for beginning of value'')"

definition stateBeginValueOrEmpty :: "scanner \<Rightarrow> char \<Rightarrow> scan_code \<times> scanner" where
  "stateBeginValueOrEmpty s c =
     (if isSpace c then (scanSkipSpace, s)
      else if c = CHR '']'' then stateEndValue s c
      else stateBeginValue s c)"

definition stateBeginString :: "scanner \<Rightarrow> char \<Rightarrow> scan_code \<times> scanner" where
  "stateBeginString s c =
     (if isSpace c then (scanSkipSpace, s)
      else if c = CHR 0x22 then (scanBeginLiteral, s\<lparr>step := StInString\<rparr>)
      else scanner_error s c ''looking for beginning of object key string'')"

definition stateBeginStringOrEmpty :: "scanner \<Rightarrow> char \<Rightarrow> scan_code \<times> scanner" where
  "stateBeginStringOrEmpty s c =
     (if isSpace c then (scanSkipSpace, s)
      else if c = CHR ''}'' then
        (let n = length (parseState s) in
         stateEndValue (s\<lparr>parseState := (parseState s)[n - 1 := parseObjectValue]\<rparr>) c)
      else stateBeginString s c)"

text \<open>
  Inside a string: \<open>CHR 0x22\<close> is the double quote and \<open>CHR 0x5C\<close> the backslash.
  Bytes below \<open>0x20\<close> are refused; bytes from \<open>0x80\<close> on are not looked at.
\<close>

definition stateInString :: "scanner \<Rightarrow> char \<Rightarrow> scan_code \<times> scanner" where
  "stateInString s c =
     (if c = CHR 0x22 then (scanContinue, s\<lparr>step := StEndValue\<rparr>)
      else if c = CHR 0x5C then (scanContinue, s\<lparr>step := StInStringEsc\<rparr>)
      else if (of_char c :: nat) < 0x20 then scanner_error s c ''in string literal''
      else (scanContinue, s))"

definition stateInStringEsc :: "scanner \<Rightarrow> char \<Rightarrow> scan_code \<times> scanner" where
  "stateInStringEsc s c =
     (if c \<in> set [CHR ''b'', CHR ''f'', CHR ''n'', CHR ''r'', CHR ''t'', CHR 0x5C, CHR ''/'',
                  CHR 0x22]
      then (scanContinue, s\<lparr>step := StInString\<rparr>)
      else if c = CHR ''u'' then (scanContinue, s\<lparr>step := StInStringEscU\<rparr>)
      else scanner_error s c ''in string escape code'')"

text \<open>
  The four step functions for the hexadecimal digits of an escape differ in the step
  that follows; \<open>next_step\<close> is that step.
\<close>

definition stateInStringEscU :: "step_fn \<Rightarrow> scanner \<Rightarrow> char \<Rightarrow> scan_code \<times> scanner" where
  "stateInStringEscU next_step s c =
     (if isHex c then (scanContinue, s\<lparr>step := next_step\<rparr>)
      else scanner_error s c ''in hexadecimal character escape'')"

definition state0 :: "scanner \<Rightarrow> char \<Rightarrow> scan_code \<times> scanner" where
  "state0 s c =
     (if c = CHR ''.'' then (scanContinue, s\<lparr>step := StDot\<rparr>)
      else if c = CHR ''e'' \<or> c = CHR ''E'' then (scanContinue, s\<lparr>step := StE\<rparr>)
      else stateEndValue s c)"

definition state1 :: "scanner \<Rightarrow> char \<Rightarrow> scan_code \<times> scanner" where
  "state1 s c =
     (if isDigit c then (scanContinue, s\<lparr>step := St1\<rparr>)
      else state0 s c)"

definition stateNeg :: "scanner \<Rightarrow> char \<Rightarrow> scan_code \<times> scanner" where
  "stateNeg s c =
     (if c = CHR ''0'' then (scanContinue, s\<lparr>step := St0\<rparr>)
      else if c \<in> set ''123456789'' then (scanContinue, s\<lparr>step := St1\<rparr>)
      else scanner_error s c ''in numeric literal'')"

definition stateDot :: "scanner \<Rightarrow> char \<Rightarrow> scan_code \<times> scanner" where
  "stateDot s c =
     (if isDigit c then (scanContinue, s\<lparr>step := StDot0\<rparr>)
      else scanner_error s c ''after decimal point in numeric literal'')"

definition stateDot0 :: "scanner \<Rightarrow> char \<Rightarrow> scan_code \<times> scanner" where
  "stateDot0 s c =
     (if isDigit c then (scanContinue, s)
      else if c = CHR ''e'' \<or> c = CHR ''E'' then (scanContinue, s\<lparr>step := StE\<rparr>)
      else stateEndValue s c)"

definition stateESign :: "scanner \<Rightarrow> char \<Rightarrow> scan_code \<times> scanner" where
  "stateESign s c =
     (if isDigit c then (scanContinue, s\<lparr>step := StE0\<rparr>)
      else scanner_error s c ''in exponent of numeric literal'')"

definition stateE :: "scanner \<Rightarrow> char \<Rightarrow> scan_code \<times> scanner" where
  "stateE s c =
     (if c = CHR ''+'' \<or> c = CHR ''-'' then (scanContinue, s\<lparr>step := StESign\<rparr>)
      else stateESign s c)"

definition stateE0 :: "scanner \<Rightarrow> char \<Rightarrow> scan_code \<times> scanner" where
  "stateE0 s c =
     (if isDigit c then (scanContinue, s)
      else stateEndValue s c)"

text \<open>
  The step functions for the letters of \<open>true\<close>, \<open>false\<close> and \<open>null\<close> after the first
  one each expect one byte.
\<close>

definition stateLiteral ::
  "char \<Rightarrow> step_fn \<Rightarrow> string \<Rightarrow> scanner \<Rightarrow> char \<Rightarrow> scan_code \<times> scanner" where
  "stateLiteral expected next_step context s c =
     (if c = expected then (scanContinue, s\<lparr>step := next_step\<rparr>)
      else scanner_error s c context)"

text \<open>\<open>s.step(s, c)\<close>: the call of the current step function.\<close>

definition call_step :: "scanner \<Rightarrow> char \<Rightarrow> scan_code \<times> scanner" where
  "call_step s c =
     (case step s of
        StBeginValueOrEmpty \<Rightarrow> stateBeginValueOrEmpty s c
      | StBeginValue \<Rightarrow> stateBeginValue s c
      | StBeginStringOrEmpty \<Rightarrow> stateBeginStringOrEmpty s c
      | StBeginString \<Rightarrow> stateBeginString s c
      | StEndValue \<Rightarrow> stateEndValue s c
      | StEndTop \<Rightarrow> stateEndTop s c
      | StInString \<Rightarrow> stateInString s c
      | StInStringEsc \<Rightarrow> stateInStringEsc s c
      | StInStringEscU \<Rightarrow> stateInStringEscU StInStringEscU1 s c
      | StInStringEscU1 \<Rightarrow> stateInStringEscU StInStringEscU12 s c
      | StInStringEscU12 \<Rightarrow> stateInStringEscU StInStringEscU123 s c
      | StInStringEscU123 \<Rightarrow> stateInStringEscU StInString s c
      | StNeg \<Rightarrow> stateNeg s c
      | St1 \<Rightarrow> state1 s c
      | St0 \<Rightarrow> state0 s c
      | StDot \<Rightarrow> stateDot s c
      | StDot0 \<Rightarrow> stateDot0 s c
      | StE \<Rightarrow> stateE s c
      | StESign \<Rightarrow> stateESign s c
      | StE0 \<Rightarrow> stateE0 s c
      | StT \<Rightarrow> stateLiteral CHR ''r'' StTr ''in literal true (expecting r)'' s c
      | StTr \<Rightarrow> stateLiteral CHR ''u'' StTru ''in literal true (expecting u)'' s c
      | StTru \<Rightarrow> stateLiteral CHR ''e'' StEndValue ''in literal true (expecting e)'' s c
      | StF \<Rightarrow> stateLiteral CHR ''a'' StFa ''in literal false (expecting a)'' s c
      | StFa \<Rightarrow> stateLiteral CHR ''l'' StFal ''in literal false (expecting l)'' s c
      | StFal \<Rightarrow> stateLiteral CHR ''s'' StFals ''in literal false (expecting s)'' s c
      | StFals \<Rightarrow> stateLiteral CHR ''e'' StEndValue ''in literal false (expecting e)'' s c
      | StN \<Rightarrow> stateLiteral CHR ''u'' StNu ''in literal null (expecting u)'' s c
      | StNu \<Rightarrow> stateLiteral CHR ''l'' StNul ''in literal null (expecting l)'' s c
      | StNul \<Rightarrow> stateLiteral CHR ''l'' StEndValue ''in literal null (expecting l)'' s c
      | StError \<Rightarrow> (scanError, s))"

text \<open>
  The loop of \<open>readValue\<close> over the bytes that are left, with the whole input \<open>buf\<close>
  and the number \<open>scanp\<close> of bytes read so far. \<open>scanEnd\<close> says that the value ended
  before the current byte. After the closing byte of an object or array the loop asks
  \<open>stateEndValue\<close> with an invented space whether the top-level value is complete. At
  the end of the input the value is complete if a space would end it; otherwise the
  error is \<open>io.ErrUnexpectedEOF\<close>, or \<open>io.EOF\<close> when the input holds nothing but spaces.
  The reader is taken to deliver its bytes without an error of its own.
\<close>

fun readValue_loop :: "string \<Rightarrow> scanner \<Rightarrow> nat \<Rightarrow> string \<Rightarrow> go_error + nat" where
  "readValue_loop buf s scanp [] =
     (if fst (call_step s CHR '' '') = scanEnd then Inr scanp
      else if \<exists>c \<in> set buf. \<not> isSpace c then Inl ''unexpected EOF''
      else Inl ''EOF'')"
| "readValue_loop buf s scanp (c # cs) =
     (case call_step s c of (code, s') \<Rightarrow>
        if code = scanEnd then Inr scanp
        else if code = scanEndObject \<or> code = scanEndArray then
          (case stateEndValue s' CHR '' '' of (code', s'') \<Rightarrow>
             if code' = scanEnd then Inr (scanp + 1)
             else readValue_loop buf s'' (scanp + 1) cs)
        else if code = scanError then
          Inl (case err s' of None \<Rightarrow> '''' | Some e \<Rightarrow> e)
        else readValue_loop buf s' (scanp + 1) cs)"

text \<open>
  \<open>readValue\<close>: the error, or the bytes of the first value (with the spaces before
  it). Bytes after the value are not looked at.
\<close>

definition readValue :: "string \<Rightarrow> go_error + string" where
  "readValue data =
     (case readValue_loop data reset 0 data of
        Inl e \<Rightarrow> Inl e
      | Inr n \<Rightarrow> Inr (take n data))"

text \<open>
  \<open>unmarshal\<close> for a target of type \<open>*Bot\<close> (the \<open>bot\<close> of \<open>BotFromJson\<close>). The literal
  \<open>null\<close> sets the pointer to \<open>nil\<close>. For every other value \<open>indirect\<close> first makes the
  pointer point to a \<open>Bot\<close>, a new zero one when it was \<open>nil\<close>; an object is then
  stored into that \<open>Bot\<close> by the parameter \<open>object\<close>, and an array or another literal is
  a type error that stores nothing more. The first case, a value without a byte, does
  not arise after \<open>readValue\<close> (lemma \<open>readValue_nonspace\<close> below); the library panics
  there.
\<close>

definition Bot_zero :: Bot where
  "Bot_zero =
     \<lparr>UserId = '''', Username = '''', DisplayName = '''', Description = '''',
      CreatorId = '''', CreateAt = 0, UpdateAt = 0, DeleteAt = 0\<rparr>"

definition indirect_Bot :: "Bot option \<Rightarrow> Bot" where
  "indirect_Bot v = (case v of None \<Rightarrow> Bot_zero | Some b \<Rightarrow> b)"

definition unmarshal_Bot ::
  "(string \<Rightarrow> Bot \<Rightarrow> go_error option \<times> Bot) \<Rightarrow> string \<Rightarrow> Bot option
   \<Rightarrow> go_error option \<times> Bot option" where
  "unmarshal_Bot object raw v =
     (case dropWhile isSpace raw of
        [] \<Rightarrow> (Some ''JSON decoder out of sync - data changing underfoot?'', v)
      | c # rest \<Rightarrow>
          if c = CHR ''{'' then
            (case object raw (indirect_Bot v) of (e, b) \<Rightarrow> (e, Some b))
          else if c = CHR ''['' then
            (Some ''json: cannot unmarshal array into Go value of type model.Bot'',
             Some (indirect_Bot v))
          else if c = CHR ''n'' then (None, None)
          else
            (Some ''json: cannot unmarshal literal into Go value of type model.Bot'',
             Some (indirect_Bot v)))"

text \<open>
  \<open>unmarshal\<close> for a target of type \<open>BotPatch\<close> (the \<open>botPatch\<close> of
  \<open>BotPatchFromJson\<close>): \<open>null\<close> leaves a struct as it is, an object is stored by the
  parameter \<open>object\<close>, an array or another literal is a type error.
\<close>

definition unmarshal_BotPatch ::
  "(string \<Rightarrow> BotPatch \<Rightarrow> go_error option \<times> BotPatch) \<Rightarrow> string \<Rightarrow> BotPatch
   \<Rightarrow> go_error option \<times> BotPatch" where
  "unmarshal_BotPatch object raw v =
     (case dropWhile isSpace raw of
        [] \<Rightarrow> (Some ''JSON decoder out of sync - data changing underfoot?'', v)
      | c # rest \<Rightarrow>
          if c = CHR ''{'' then object raw v
          else if c = CHR ''['' then
            (Some ''json: cannot unmarshal array into Go value of type model.BotPatch'', v)
          else if c = CHR ''n'' then (None, v)
          else
            (Some ''json: cannot unmarshal literal into Go value of type model.BotPatch'', v))"

text \<open>
  \<open>unmarshal\<close> for a target of type \<open>BotList\<close> (the \<open>bots\<close> of \<open>BotListFromJson\<close>):
  \<open>null\<close> sets the slice to \<open>nil\<close>, an array is stored by the parameter \<open>array\<close>, an
  object or another literal is a type error.
\<close>

definition unmarshal_BotList ::
  "(string \<Rightarrow> BotList \<Rightarrow> go_error option \<times> BotList) \<Rightarrow> string \<Rightarrow> BotList
   \<Rightarrow> go_error option \<times> BotList" where
  "unmarshal_BotList array raw v =
     (case dropWhile isSpace raw of
        [] \<Rightarrow> (Some ''JSON decoder out of sync - data changing underfoot?'', v)
      | c # rest \<Rightarrow>
          if c = CHR ''['' then array raw v
          else if c = CHR ''{'' then
            (Some ''json: cannot unmarshal object into Go value of type model.BotList'', v)
          else if c = CHR ''n'' then (None, [])
          else
            (Some ''json: cannot unmarshal literal into Go value of type model.BotList'', v))"

text \<open>\<open>Decode\<close> for the three targets: \<open>readValue\<close>, then \<open>unmarshal\<close>.\<close>

definition Decode_Bot ::
  "(string \<Rightarrow> Bot \<Rightarrow> go_error option \<times> Bot) \<Rightarrow> Bot option decoder" where
  "Decode_Bot object data v =
     (case readValue data of
        Inl e \<Rightarrow> (Some e, v)
      | Inr raw \<Rightarrow> unmarshal_Bot object raw v)"

definition Decode_BotPatch ::
  "(string \<Rightarrow> BotPatch \<Rightarrow> go_error option \<times> BotPatch) \<Rightarrow> BotPatch decoder" where
  "Decode_BotPatch object data v =
     (case readValue data of
        Inl e \<Rightarrow> (Some e, v)
      | Inr raw \<Rightarrow> unmarshal_BotPatch object raw v)"

definition Decode_BotList ::
  "(string \<Rightarrow> BotList \<Rightarrow> go_error option \<times> BotList) \<Rightarrow> BotList decoder" where
  "Decode_BotList array data v =
     (case readValue data of
        Inl e \<Rightarrow> (Some e, v)
      | Inr raw \<Rightarrow> unmarshal_BotList array raw v)"

text \<open>The value in \<open>raw\<close> is the literal \<open>null\<close>: its first byte is \<open>n\<close>.\<close>

definition begins_null :: "string \<Rightarrow> bool" where
  "begins_null raw = (case dropWhile isSpace raw of [] \<Rightarrow> False | c # rest \<Rightarrow> c = CHR ''n'')"

subsection \<open>Instances of the parameters\<close>

text \<open>
  The collaborators that are parameters above are instantiated here, so that the
  theorems can be evaluated at concrete inputs. These instances stand in for functions
  outside the sources; they agree with them on the inputs used below (lower-case ASCII
  user names, ASCII strings, whose runes are their bytes).
\<close>

definition sample_IsValidUsername :: "string \<Rightarrow> bool" where
  "sample_IsValidUsername s =
     (s \<noteq> [] \<and> list_all (\<lambda>c. c \<in> set ''abcdefghijklmnopqrstuvwxyz0123456789.-_'') s)"

definition sample_RuneCount :: "string \<Rightarrow> int" where
  "sample_RuneCount s = int (length s)"

definition sample_ToLower :: "string \<Rightarrow> string" where
  "sample_ToLower s =
     map (\<lambda>c. case map_of (zip ''ABCDEFGHIJKLMNOPQRSTUVWXYZ'' ''abcdefghijklmnopqrstuvwxyz'') c of
                None \<Rightarrow> c
              | Some l \<Rightarrow> l) s"

definition sample_Etag :: "etag_part list \<Rightarrow> string" where
  "sample_Etag parts =
     concat (map (\<lambda>p. case p of StringPart s \<Rightarrow> CHR ''.'' # s | _ \<Rightarrow> ''.#'') parts)"

definition sample_bot :: Bot where
  "sample_bot =
     \<lparr>UserId = replicate 26 CHR ''u'', Username = ''testbot'', DisplayName = ''Test Bot'',
      Description = ''a bot'', CreatorId = replicate 26 CHR ''c'',
      CreateAt = 1, UpdateAt = 2, DeleteAt = 0\<rparr>"

text \<open>
  Two inputs: an object that is cut off after its first key, and a complete object
  whose \<open>create_at\<close> is a string where the field is an \<open>int64\<close>.
\<close>

definition json_truncated :: string where
  "json_truncated = ''{\"user_id\":''"

definition json_type_mismatch :: string where
  "json_type_mismatch = ''{\"username\":\"x\",\"create_at\":\"y\"}''"

text \<open>
  Instances of the parameters of \<open>unmarshal\<close>. The one for \<open>Bot\<close> knows the object
  \<open>json_type_mismatch\<close>, for which \<open>encoding/json\<close> stores the user name \<open>x\<close> and
  reports the string under \<open>create_at\<close> as a type error; it stores nothing for another
  object, which is right for the empty object \<open>{}\<close>. The ones for \<open>BotPatch\<close> and
  \<open>BotList\<close> store nothing, which is right for \<open>{}\<close> and \<open>[]\<close>.
\<close>

definition sample_object_Bot :: "string \<Rightarrow> Bot \<Rightarrow> go_error option \<times> Bot" where
  "sample_object_Bot raw b =
     (if raw = json_type_mismatch then
        (Some ''json: cannot unmarshal string into Go struct field Bot.create_at of type int64'',
         b\<lparr>Username := ''x''\<rparr>)
      else (None, b))"

definition sample_object_BotPatch :: "string \<Rightarrow> BotPatch \<Rightarrow> go_error option \<times> BotPatch" where
  "sample_object_BotPatch raw p = (None, p)"

definition sample_array_BotList :: "string \<Rightarrow> BotList \<Rightarrow> go_error option \<times> BotList" where
  "sample_array_BotList raw l = (None, [])"

text \<open>
  The collection of the spec's example: identities \<open>a\<close>, \<open>b\<close>, \<open>c\<close> with update times
  100, 300 and 300.
\<close>

definition tie_bots :: "Bot list" where
  "tie_bots =
     [sample_bot\<lparr>UserId := ''a'', UpdateAt := 100\<rparr>,
      sample_bot\<lparr>UserId := ''b'', UpdateAt := 300\<rparr>,
      sample_bot\<lparr>UserId := ''c'', UpdateAt := 300\<rparr>]"

text \<open>Two bots that share the maximal update time 0.\<close>

definition zero_time_bots :: "Bot list" where
  "zero_time_bots =
     [sample_bot\<lparr>UserId := ''a'', UpdateAt := 0\<rparr>,
      sample_bot\<lparr>UserId := ''b'', UpdateAt := 0\<rparr>]"

section \<open>Properties\<close>

subsection \<open>Patch\<close>

text \<open>
  Claim C6. For every bot \<open>b\<close> and every patch \<open>p\<close>, applying \<open>Patch\<close> with \<open>p\<close>
  twice leaves the bot in exactly the state that applying it once does.
\<close>

theorem Patch_idempotent: "Patch (Patch b p) p = Patch b p"
  by (simp add: Patch_def Let_def split: option.split)

theorem Patch_idempotent_witness:
  "Patch (Patch sample_bot
            \<lparr>Username_patch = Some ''renamed'', DisplayName_patch = None,
             Description_patch = Some ''''\<rparr>)
     \<lparr>Username_patch = Some ''renamed'', DisplayName_patch = None,
      Description_patch = Some ''''\<rparr>
   = sample_bot\<lparr>Username := ''renamed'', Description := ''''\<rparr>"
  using Patch_idempotent
    [of sample_bot
        "\<lparr>Username_patch = Some ''renamed'', DisplayName_patch = None,
          Description_patch = Some ''''\<rparr>"]
  by (simp add: Patch_def sample_bot_def)

text \<open>
  Claim C7. For every bot and every patch, \<open>Patch\<close> sets each of \<open>Username\<close>,
  \<open>DisplayName\<close> and \<open>Description\<close> to the value the patch provides for it and leaves
  the field as it was when the patch provides none; \<open>UserId\<close>, \<open>CreatorId\<close>, \<open>CreateAt\<close>,
  \<open>UpdateAt\<close> and \<open>DeleteAt\<close> are never changed; a patch whose three fields are all
  absent leaves the whole bot unchanged.
\<close>

theorem Patch_frame:
  "Username (Patch b p) = (case Username_patch p of None \<Rightarrow> Username b | Some v \<Rightarrow> v)
   \<and> DisplayName (Patch b p) =
       (case DisplayName_patch p of None \<Rightarrow> DisplayName b | Some v \<Rightarrow> v)
   \<and> Description (Patch b p) =
       (case Description_patch p of None \<Rightarrow> Description b | Some v \<Rightarrow> v)
   \<and> UserId (Patch b p) = UserId b
   \<and> CreatorId (Patch b p) = CreatorId b
   \<and> CreateAt (Patch b p) = CreateAt b
   \<and> UpdateAt (Patch b p) = UpdateAt b
   \<and> DeleteAt (Patch b p) = DeleteAt b
   \<and> (Username_patch p = None \<and> DisplayName_patch p = None \<and> Description_patch p = None
        \<longrightarrow> Patch b p = b)"
  by (simp add: Patch_def Let_def split: option.split)

theorem Patch_frame_witness:
  "Patch sample_bot
     \<lparr>Username_patch = None, DisplayName_patch = Some ''Renamed'', Description_patch = None\<rparr>
     = sample_bot\<lparr>DisplayName := ''Renamed''\<rparr>
   \<and> Patch sample_bot BotPatch_zero = sample_bot"
  using Patch_frame
          [of sample_bot
              "\<lparr>Username_patch = None, DisplayName_patch = Some ''Renamed'',
                Description_patch = None\<rparr>"]
        Patch_frame [of sample_bot BotPatch_zero]
  by (simp add: BotPatch_zero_def sample_bot_def)

subsection \<open>Validation\<close>

text \<open>
  Claim C3. For every bot, \<open>IsValid\<close> returns no error exactly when all seven invariants
  hold (\<open>UserId\<close> of length 26, a user name that passes the shared check, a display name
  of at most the shared maximum of runes, a description of at most 1024 runes,
  \<open>CreatorId\<close> of length 26, \<open>CreateAt\<close> and \<open>UpdateAt\<close> not zero). Otherwise it returns
  one failure, the one that the check of the first violated rule in the fixed order
  builds, whatever the later rules say; every failure carries the status 400. The
  theorem holds for every user-name check \<open>V\<close>, rune count \<open>R\<close> and maximum \<open>M\<close>.
\<close>

theorem IsValid_first_violated:
  "IsValid V R M b =
     map_option (\<lambda>r. NewAppError ''Bot.IsValid'' (rule_key r) (Trace b) '''' 400)
       (first_violated V R M b)
   \<and> (IsValid V R M b = None \<longleftrightarrow>
        length (UserId b) = 26 \<and> V (Username b) \<and> R (DisplayName b) \<le> M
        \<and> R (Description b) \<le> 1024 \<and> length (CreatorId b) = 26
        \<and> CreateAt b \<noteq> 0 \<and> UpdateAt b \<noteq> 0)
   \<and> (\<forall>e. IsValid V R M b = Some e \<longrightarrow> status_code e = 400)"
  by (auto simp add: IsValid_def first_violated_def rule_order_def
      BOT_DISPLAY_NAME_MAX_RUNES_def NewAppError_def StatusBadRequest_def)

theorem IsValid_first_violated_witness:
  "IsValid sample_IsValidUsername sample_RuneCount 64 sample_bot = None
   \<and> IsValid sample_IsValidUsername sample_RuneCount 64
        (sample_bot\<lparr>Description := replicate 1024 CHR ''d''\<rparr>) = None
   \<and> IsValid sample_IsValidUsername sample_RuneCount 64
        (sample_bot\<lparr>Description := replicate 1025 CHR ''d'', UpdateAt := 0\<rparr>)
      = Some (NewAppError ''Bot.IsValid'' ''model.bot.is_valid.description.app_error''
                [''user_id'' \<mapsto> replicate 26 CHR ''u''] '''' 400)
   \<and> IsValid sample_IsValidUsername sample_RuneCount 64
        (sample_bot\<lparr>UserId := replicate 27 CHR ''u'', CreatorId := replicate 25 CHR ''c''\<rparr>)
      = Some (NewAppError ''Bot.IsValid'' ''model.bot.is_valid.user_id.app_error''
                [''user_id'' \<mapsto> replicate 27 CHR ''u''] '''' 400)"
  using IsValid_first_violated [of sample_IsValidUsername sample_RuneCount 64 sample_bot]
        IsValid_first_violated [of sample_IsValidUsername sample_RuneCount 64
          "sample_bot\<lparr>Description := replicate 1024 CHR ''d''\<rparr>"]
        IsValid_first_violated [of sample_IsValidUsername sample_RuneCount 64
          "sample_bot\<lparr>Description := replicate 1025 CHR ''d'', UpdateAt := 0\<rparr>"]
        IsValid_first_violated [of sample_IsValidUsername sample_RuneCount 64
          "sample_bot\<lparr>UserId := replicate 27 CHR ''u'',
                       CreatorId := replicate 25 CHR ''c''\<rparr>"]
  by (simp add: first_violated_def rule_order_def sample_bot_def sample_IsValidUsername_def
      sample_RuneCount_def Trace_def)

text \<open>
  Claim C2. Each of the seven checks of \<open>IsValid\<close> is to report a message key of its
  own. The source does not: a bot whose only violation is a display name of 65 runes,
  with the maximum at 64, is reported under \<open>model.bot.is_valid.user_id.app_error\<close>,
  the key under which a bot with a \<open>UserId\<close> of 25 bytes is reported.
\<close>

theorem IsValid_display_name_key:
  "map_option message_key
     (IsValid sample_IsValidUsername sample_RuneCount 64
        (sample_bot\<lparr>DisplayName := replicate 65 CHR ''x''\<rparr>))
     = Some ''model.bot.is_valid.user_id.app_error''
   \<and> map_option message_key
     (IsValid sample_IsValidUsername sample_RuneCount 64
        (sample_bot\<lparr>UserId := replicate 25 CHR ''u''\<rparr>))
     = Some ''model.bot.is_valid.user_id.app_error''"
  by (simp add: IsValid_def sample_bot_def sample_IsValidUsername_def sample_RuneCount_def
      BOT_DISPLAY_NAME_MAX_RUNES_def NewAppError_def)

subsection \<open>Projection to a user\<close>

text \<open>
  Claim C8. For every bot, \<open>UserFromBotModel\<close> returns a user (the function has no error
  result) whose identifier is the bot's \<open>UserId\<close>, whose user name is the bot's
  \<open>Username\<close>, whose email is the lower-cased user name followed by \<open>@localhost\<close> and
  whose first name is the bot's \<open>DisplayName\<close>; changing \<open>Description\<close>, \<open>CreatorId\<close>,
  \<open>CreateAt\<close>, \<open>UpdateAt\<close> or \<open>DeleteAt\<close> does not change the result.
\<close>

theorem UserFromBotModel_fields:
  "Id_user (UserFromBotModel ToLower b) = UserId b
   \<and> Username_user (UserFromBotModel ToLower b) = Username b
   \<and> Email (UserFromBotModel ToLower b) = ToLower (Username b) @ ''@localhost''
   \<and> FirstName (UserFromBotModel ToLower b) = DisplayName b
   \<and> UserFromBotModel ToLower
        (b\<lparr>Description := d, CreatorId := c, CreateAt := t1, UpdateAt := t2, DeleteAt := t3\<rparr>)
      = UserFromBotModel ToLower b"
  by (simp add: UserFromBotModel_def)

theorem UserFromBotModel_fields_witness:
  "UserFromBotModel sample_ToLower (sample_bot\<lparr>Username := ''TestBot''\<rparr>) =
     \<lparr>Id_user = replicate 26 CHR ''u'', Username_user = ''TestBot'',
      Email = ''testbot@localhost'', FirstName = ''Test Bot''\<rparr>"
  using UserFromBotModel_fields [of sample_ToLower "sample_bot\<lparr>Username := ''TestBot''\<rparr>"]
  by (simp add: sample_bot_def sample_ToLower_def UserFromBotModel_def)

subsection \<open>Cache tokens\<close>

text \<open>
  Claim C9. On the empty collection \<open>BotList.Etag\<close> calls the helper \<open>Etag\<close> with the
  identity \<open>"0"\<close>, the time 0, the delta 0 and the length 0, and returns its token.
\<close>

theorem BotList_Etag_empty:
  "BotList_Etag Etag [] = Inr (Etag [StringPart ''0'', Int64Part 0, Int64Part 0, IntPart 0])"
  by (simp add: BotList_Etag_def BotList_Etag_parts_def)

theorem BotList_Etag_empty_witness:
  "BotList_Etag sample_Etag [] = Inr ''.0.#.#.#''"
  using BotList_Etag_empty [of sample_Etag]
  by (simp add: sample_Etag_def)

text \<open>
  The loop keeps \<open>id\<close> and \<open>t\<close> over elements whose time is not above \<open>t\<close>, and over
  elements that all lie below a bound it ends with a \<open>t\<close> below that bound.
\<close>

lemma Etag_loop_not_above:
  "\<forall>x\<in>set xs. sint (UpdateAt x) \<le> sint t \<Longrightarrow> Etag_loop (map Some xs) i t = Inr (i, t)"
  by (induction xs) auto

lemma Etag_loop_below:
  "\<forall>x\<in>set pre. sint (UpdateAt x) < m \<Longrightarrow> sint t < m \<Longrightarrow>
   \<exists>i' t'. Etag_loop (map Some (pre @ rest)) i t = Etag_loop (map Some rest) i' t'
          \<and> sint t' < m"
proof (induction pre arbitrary: i t)
  case Nil
  then show ?case by auto
next
  case (Cons x pre)
  show ?case
  proof (cases "sint (UpdateAt x) > sint t")
    case True
    from Cons.prems have "sint (UpdateAt x) < m" by simp
    with Cons.IH [of "UpdateAt x" "UserId x"] Cons.prems True show ?thesis by simp
  next
    case False
    with Cons.IH [of t i] Cons.prems show ?thesis by simp
  qed
qed

text \<open>
  Claim C1, as amended. The claim says that among several bots with the maximal update
  time the last one in iteration order gives the identity of the token. The loop takes
  a new identity only when the time is strictly above the current one, so the first
  such bot gives it. Amended: for every collection of bots (none of them \<open>nil\<close>) in
  which the bot \<open>b\<close> has a time above zero, every bot before \<open>b\<close> a smaller time and
  every bot after \<open>b\<close> a time not above it (\<open>b\<close> is the first bot with the maximal
  time), \<open>BotList.Etag\<close> is the token of the identity of \<open>b\<close>, that time, the delta 0
  and the length. For the times 100, 300, 300 and the identities \<open>a\<close>, \<open>b\<close>, \<open>c\<close> this
  is the token of \<open>b\<close>, 300, 0 and 3.
\<close>

theorem BotList_Etag_first_maximum:
  assumes "\<forall>x\<in>set pre. sint (UpdateAt x) < sint (UpdateAt b)"
      and "\<forall>x\<in>set post. sint (UpdateAt x) \<le> sint (UpdateAt b)"
      and "0 < sint (UpdateAt b)"
  shows "BotList_Etag Etag (map Some (pre @ b # post)) =
           Inr (Etag [StringPart (UserId b), Int64Part (UpdateAt b), Int64Part 0,
                      IntPart (int (length (pre @ b # post)))])"
proof -
  from assms(3) have "sint (0 :: int64) < sint (UpdateAt b)" by simp
  with Etag_loop_below [OF assms(1), of 0 "b # post" "''0''"]
  obtain i' t' where
    step: "Etag_loop (map Some (pre @ b # post)) ''0'' 0 = Etag_loop (map Some (b # post)) i' t'"
    and below: "sint t' < sint (UpdateAt b)"
    by blast
  from below have "Etag_loop (map Some (b # post)) i' t' =
      Etag_loop (map Some post) (UserId b) (UpdateAt b)"
    by simp
  also from assms(2) have "\<dots> = Inr (UserId b, UpdateAt b)"
    by (rule Etag_loop_not_above)
  finally have "Etag_loop (map Some (pre @ b # post)) ''0'' 0 = Inr (UserId b, UpdateAt b)"
    using step by simp
  then show ?thesis
    by (simp add: BotList_Etag_def BotList_Etag_parts_def)
qed

theorem BotList_Etag_first_maximum_witness:
  "BotList_Etag sample_Etag (map Some tie_bots) =
     Inr (sample_Etag [StringPart ''b'', Int64Part 300, Int64Part 0, IntPart 3])"
  using BotList_Etag_first_maximum
    [of "[sample_bot\<lparr>UserId := ''a'', UpdateAt := 100\<rparr>]"
        "sample_bot\<lparr>UserId := ''b'', UpdateAt := 300\<rparr>"
        "[sample_bot\<lparr>UserId := ''c'', UpdateAt := 300\<rparr>]" sample_Etag]
  by (simp add: tie_bots_def)

text \<open>
  The claim as it is written fails at its own example: the arguments of the call are
  \<open>b\<close>, 300, 0 and 3, not \<open>c\<close>, 300, 0 and 3, and the tokens differ for a helper that
  writes the identity into the token. It also fails where the maximal time is not above
  zero: for two bots with the time 0 the loop never takes an identity, and the call has
  the identity \<open>"0"\<close> of no bot.
\<close>

theorem BotList_Etag_last_maximum_counterexample:
  "BotList_Etag_parts (map Some tie_bots) =
     Inr [StringPart ''b'', Int64Part 300, Int64Part 0, IntPart 3]
   \<and> BotList_Etag_parts (map Some tie_bots) \<noteq>
     Inr [StringPart ''c'', Int64Part 300, Int64Part 0, IntPart 3]
   \<and> BotList_Etag sample_Etag (map Some tie_bots) \<noteq>
     Inr (sample_Etag [StringPart ''c'', Int64Part 300, Int64Part 0, IntPart 3])
   \<and> BotList_Etag_parts (map Some zero_time_bots) =
     Inr [StringPart ''0'', Int64Part 0, Int64Part 0, IntPart 2]
   \<and> BotList_Etag_parts (map Some zero_time_bots) \<noteq>
     Inr [StringPart ''b'', Int64Part 0, Int64Part 0, IntPart 2]"
  by (simp add: BotList_Etag_def BotList_Etag_parts_def tie_bots_def zero_time_bots_def
      sample_Etag_def)

subsection \<open>Decoding\<close>

text \<open>
  \<open>readValue\<close> returns a value only after it has read a byte that is not a space,
  and that byte is part of the value. So \<open>unmarshal\<close> always finds the first byte of
  the value.
\<close>

lemma readValue_loop_mono:
  "readValue_loop buf s n cs = Inr m \<Longrightarrow> n \<le> m"
proof (induction cs arbitrary: s n)
  case Nil
  then show ?case by (simp split: if_splits)
next
  case (Cons c cs)
  obtain code s' where st: "call_step s c = (code, s')" by (cases "call_step s c")
  obtain code' s'' where st': "stateEndValue s' CHR '' '' = (code', s'')"
    by (cases "stateEndValue s' CHR '' ''")
  from Cons.prems st st' have
    "m = n \<or> m = n + 1 \<or> readValue_loop buf s'' (n + 1) cs = Inr m
     \<or> readValue_loop buf s' (n + 1) cs = Inr m"
    by (auto split: if_splits)
  with Cons.IH show ?case by force
qed

lemma call_step_begin_space:
  "step s = StBeginValue \<Longrightarrow> isSpace c \<Longrightarrow> call_step s c = (scanSkipSpace, s)"
  by (simp add: call_step_def stateBeginValue_def)

lemma call_step_begin_nonspace:
  "step s = StBeginValue \<Longrightarrow> \<not> isSpace c \<Longrightarrow>
   fst (call_step s c) \<in> {scanBeginObject, scanBeginArray, scanBeginLiteral, scanError}"
  by (simp add: call_step_def stateBeginValue_def pushParseState_def scanner_error_def Let_def)

lemma readValue_loop_nonspace:
  "\<forall>c\<in>set pre. isSpace c \<Longrightarrow> step s = StBeginValue \<Longrightarrow>
   readValue_loop buf s (length pre) rest = Inr m \<Longrightarrow>
   \<exists>c\<in>set (take m (pre @ rest)). \<not> isSpace c"
proof (induction rest arbitrary: pre)
  case Nil
  from Nil.prems(2) have "call_step s CHR '' '' = (scanSkipSpace, s)"
    by (rule call_step_begin_space) (simp add: isSpace_def)
  with Nil.prems(3) show ?case by (simp split: if_splits)
next
  case (Cons c cs)
  show ?case
  proof (cases "isSpace c")
    case True
    with Cons.prems(2) have "call_step s c = (scanSkipSpace, s)"
      by (rule call_step_begin_space)
    with Cons.prems(3) have loop: "readValue_loop buf s (length (pre @ [c])) cs = Inr m"
      by simp
    from Cons.prems(1) True have sp: "\<forall>x\<in>set (pre @ [c]). isSpace x" by simp
    from Cons.IH [OF sp Cons.prems(2) loop] show ?thesis by simp
  next
    case False
    obtain code s' where st: "call_step s c = (code, s')" by (cases "call_step s c")
    with call_step_begin_nonspace [OF Cons.prems(2) False]
    have code: "code \<in> {scanBeginObject, scanBeginArray, scanBeginLiteral, scanError}" by simp
    with Cons.prems(3) st have "readValue_loop buf s' (length pre + 1) cs = Inr m"
      by (auto split: if_splits)
    then have "length pre + 1 \<le> m" by (rule readValue_loop_mono)
    then have "take m (pre @ c # cs) = pre @ c # take (m - length pre - 1) cs"
      by (simp add: take_Cons')
    then have "c \<in> set (take m (pre @ c # cs))" by simp
    with False show ?thesis by blast
  qed
qed

lemma readValue_nonspace:
  assumes "readValue data = Inr raw"
  shows "dropWhile isSpace raw \<noteq> []"
proof -
  from assms obtain m
    where m: "readValue_loop data reset 0 data = Inr m" and raw: "raw = take m data"
    by (auto simp add: readValue_def split: sum.splits)
  from readValue_loop_nonspace [of "[]" reset data data m] m
  have "\<exists>c\<in>set (take m data). \<not> isSpace c" by (simp add: reset_def)
  with raw show ?thesis by (simp add: dropWhile_eq_Nil_conv)
qed

text \<open>
  Claim C4, as amended. The claim says that a failed decode of an entity or collection
  yields an empty or zero result. That holds for input with a syntax error, and not
  for every decode error (see the counterexample below). Amended: for every input in
  which \<open>readValue\<close> finds a syntax error or the end of the input before the first
  JSON value is complete, whatever the decoders of objects and arrays are,
  \<open>BotFromJson\<close> returns the \<open>nil\<close> pointer and \<open>BotListFromJson\<close> the empty list, and
  neither hands a failure to the caller. \<open>BotPatchFromJson\<close> returns \<open>nil\<close> for such
  input and for every other input on which the decoder reports an error, and a patch
  that is not \<open>nil\<close> whenever decoding succeeds, so its failure differs from every
  decoded patch, the one without overrides included.
\<close>

theorem FromJson_syntax_error:
  assumes "readValue data = Inl e"
  shows "BotFromJson (Decode_Bot object) data = None
       \<and> BotListFromJson (Decode_BotList array) data = []
       \<and> BotPatchFromJson (Decode_BotPatch objectp) data = None
       \<and> (\<forall>D data'. fst (D data' BotPatch_zero) \<noteq> None \<longrightarrow> BotPatchFromJson D data' = None)
       \<and> (\<forall>D data' p. D data' BotPatch_zero = (None, p) \<longrightarrow>
             BotPatchFromJson D data' = Some p)"
  using assms
  by (auto simp add: BotFromJson_def BotListFromJson_def BotPatchFromJson_def Decode_Bot_def
      Decode_BotList_def Decode_BotPatch_def split: prod.splits)

theorem FromJson_syntax_error_witness:
  "BotFromJson (Decode_Bot sample_object_Bot) json_truncated = None
   \<and> BotListFromJson (Decode_BotList sample_array_BotList) json_truncated = []
   \<and> BotPatchFromJson (Decode_BotPatch sample_object_BotPatch) json_truncated = None
   \<and> BotPatchFromJson (Decode_BotPatch sample_object_BotPatch) ''{}'' = Some BotPatch_zero"
proof -
  have h: "readValue json_truncated = Inl ''unexpected EOF''" by code_simp
  have ok: "Decode_BotPatch sample_object_BotPatch ''{}'' BotPatch_zero = (None, BotPatch_zero)"
    by code_simp
  from FromJson_syntax_error
         [OF h, of sample_object_Bot sample_array_BotList sample_object_BotPatch] ok
  show ?thesis by blast
qed

text \<open>
  The claim read for every decode error fails: the object \<open>json_type_mismatch\<close> is a
  complete JSON value, the decoder reports a type error for its \<open>create_at\<close>, and
  \<open>BotFromJson\<close> drops the error and returns an entity that is neither \<open>nil\<close> nor a
  zero entity: its user name is \<open>x\<close>.
\<close>

theorem FromJson_type_error_counterexample:
  "readValue json_type_mismatch = Inr json_type_mismatch
   \<and> fst (Decode_Bot sample_object_Bot json_type_mismatch None) \<noteq> None
   \<and> BotFromJson (Decode_Bot sample_object_Bot) json_type_mismatch
       = Some (Bot_zero\<lparr>Username := ''x''\<rparr>)
   \<and> BotFromJson (Decode_Bot sample_object_Bot) json_type_mismatch \<noteq> None
   \<and> BotFromJson (Decode_Bot sample_object_Bot) json_type_mismatch \<noteq> Some Bot_zero"
proof -
  have r: "readValue json_type_mismatch = Inr json_type_mismatch" by code_simp
  have d: "Decode_Bot sample_object_Bot json_type_mismatch None =
      (Some ''json: cannot unmarshal string into Go struct field Bot.create_at of type int64'',
       Some (Bot_zero\<lparr>Username := ''x''\<rparr>))"
    by code_simp
  have z: "Bot_zero\<lparr>Username := ''x''\<rparr> \<noteq> Bot_zero" by (simp add: Bot_zero_def)
  from r d z show ?thesis by (simp add: BotFromJson_def)
qed

text \<open>
  Claim C10, as amended. The claim says that a failed decode of an entity is told
  apart from every decoded entity by the \<open>nil\<close> result. That holds for a decode that
  fails at a syntax error, and not for one that fails at a type error (see the
  counterexample below). Amended: whatever the decoder of objects is, \<open>BotFromJson\<close>
  returns the \<open>nil\<close> pointer, and not a zero entity, exactly for the inputs in which
  \<open>readValue\<close> finds a syntax error or an early end and for the inputs whose first
  JSON value is \<open>null\<close>; every other input, an object among them, gives a pointer that
  is not \<open>nil\<close>, also when the decoder reports an error. \<open>nil\<close> is also what
  \<open>BotPatchFromJson\<close> returns when the decoder reports an error.
\<close>

theorem BotFromJson_nil_iff:
  "(BotFromJson (Decode_Bot object) data = None \<longleftrightarrow>
      (case readValue data of Inl e \<Rightarrow> True | Inr raw \<Rightarrow> begins_null raw))
   \<and> (\<forall>D. fst (D data BotPatch_zero) \<noteq> None \<longrightarrow> BotPatchFromJson D data = None)"
proof -
  have "BotFromJson (Decode_Bot object) data = None \<longleftrightarrow>
      (case readValue data of Inl e \<Rightarrow> True | Inr raw \<Rightarrow> begins_null raw)"
  proof (cases "readValue data")
    case (Inl e)
    then show ?thesis by (simp add: BotFromJson_def Decode_Bot_def)
  next
    case (Inr raw)
    then have "dropWhile isSpace raw \<noteq> []" by (rule readValue_nonspace)
    then obtain c rest where "dropWhile isSpace raw = c # rest"
      by (cases "dropWhile isSpace raw") auto
    with Inr show ?thesis
      by (simp add: BotFromJson_def Decode_Bot_def unmarshal_Bot_def begins_null_def
          split: prod.splits)
  qed
  moreover have "\<forall>D. fst (D data BotPatch_zero) \<noteq> None \<longrightarrow> BotPatchFromJson D data = None"
    by (auto simp add: BotPatchFromJson_def split: prod.splits)
  ultimately show ?thesis by blast
qed

theorem BotFromJson_nil_iff_witness:
  "BotFromJson (Decode_Bot sample_object_Bot) json_truncated = None
   \<and> BotFromJson (Decode_Bot sample_object_Bot) '' null '' = None
   \<and> BotFromJson (Decode_Bot sample_object_Bot) ''{}'' \<noteq> None
   \<and> BotFromJson (Decode_Bot sample_object_Bot) ''[]'' \<noteq> None
   \<and> BotPatchFromJson (Decode_BotPatch sample_object_BotPatch) json_truncated = None"
proof -
  have 1: "readValue json_truncated = Inl ''unexpected EOF''" by code_simp
  have 2: "readValue '' null '' = Inr '' null''" by code_simp
  have 3: "readValue ''{}'' = Inr ''{}''" by code_simp
  have 4: "readValue ''[]'' = Inr ''[]''" by code_simp
  have 5: "fst (Decode_BotPatch sample_object_BotPatch json_truncated BotPatch_zero) \<noteq> None"
    using 1 by (simp add: Decode_BotPatch_def)
  from BotFromJson_nil_iff [of sample_object_Bot json_truncated]
       BotFromJson_nil_iff [of sample_object_Bot "'' null ''"]
       BotFromJson_nil_iff [of sample_object_Bot "''{}''"]
       BotFromJson_nil_iff [of sample_object_Bot "''[]''"]
       1 2 3 4 5
  show ?thesis by (simp add: begins_null_def isSpace_def)
qed

text \<open>
  The claim as it is written fails for a decode that fails at a type error: for the
  array \<open>[]\<close> the decoder reports an error, and \<open>BotFromJson\<close> returns a zero entity,
  the very result of the successful decode of \<open>{}\<close>.
\<close>

theorem BotFromJson_failed_decode_counterexample:
  "fst (Decode_Bot sample_object_Bot ''[]'' None) \<noteq> None
   \<and> fst (Decode_Bot sample_object_Bot ''{}'' None) = None
   \<and> BotFromJson (Decode_Bot sample_object_Bot) ''[]'' = Some Bot_zero
   \<and> BotFromJson (Decode_Bot sample_object_Bot) ''[]''
       = BotFromJson (Decode_Bot sample_object_Bot) ''{}''"
proof -
  have 3: "readValue ''{}'' = Inr ''{}''" by code_simp
  have 4: "readValue ''[]'' = Inr ''[]''" by code_simp
  have 5: "''{}'' \<noteq> json_type_mismatch" by (simp add: json_type_mismatch_def)
  from 3 4 5 show ?thesis
    by (simp add: BotFromJson_def Decode_Bot_def unmarshal_Bot_def sample_object_Bot_def
        indirect_Bot_def isSpace_def)
qed

end
